theory Spec2Isabelle
  imports Complex_Main "HOL-Library.Word" "HOL-Library.AList"
begin

unbundle bit_operations_syntax

section \<open>Checksum constants (base.py, module level)\<close>

text \<open>
  \<^verbatim>\<open>
  CHECKSUM_HEXDIGITS = 15  # Must be 15 or lower
  MD5_HEXDIGITS = 32
  _CHECKSUM_BITSIZE = CHECKSUM_HEXDIGITS << 2
  CHECKSUM_MASK = (2**_CHECKSUM_BITSIZE) - 1
  DEFAULT_DATETIME_PRECISION = 6
  DEFAULT_NUMERIC_PRECISION = 24
  \<close>
  Python integers are unbounded, so the constants are of type \<open>int\<close>; the shift
  \<open><<\<close> is \<open>push_bit\<close>.
\<close>

definition CHECKSUM_HEXDIGITS :: int where
  "CHECKSUM_HEXDIGITS = 15"

definition MD5_HEXDIGITS :: int where
  "MD5_HEXDIGITS = 32"

definition CHECKSUM_BITSIZE :: int where
  "CHECKSUM_BITSIZE = push_bit 2 CHECKSUM_HEXDIGITS"

definition CHECKSUM_MASK :: int where
  "CHECKSUM_MASK = 2 ^ nat CHECKSUM_BITSIZE - 1"

definition DEFAULT_DATETIME_PRECISION :: int where
  "DEFAULT_DATETIME_PRECISION = 6"

definition DEFAULT_NUMERIC_PRECISION :: int where
  "DEFAULT_NUMERIC_PRECISION = 24"

section \<open>Exceptions and Python values\<close>

text \<open>
  Every \<^verbatim>\<open>raise\<close> of the source is a value \<open>Inl e\<close> of a result type \<open>exn + 'a\<close>.
  The messages of the exceptions are not modelled, except the payload of
  \<^verbatim>\<open>ModuleNotFoundError\<close>, which identifies the error object that
  \<^verbatim>\<open>ThreadedDatabase\<close> stores, and the exit code of \<^verbatim>\<open>sys.exit\<close>.
  \<open>DriverError\<close> stands for whatever a database driver raises.
\<close>

datatype exn =
    ValueError
  | TypeError
  | RuntimeError
  | NotImplementedError
  | AssertionError
  | AttributeError
  | IndexError
  | ModuleNotFoundError string
  | BrokenThreadPool
  | SystemExit int
  | ConnectError
  | QueryError
  | DriverError string

text \<open>
  Modelled from the spec: the error kinds that section 7 of the specification declares
  (\<^verbatim>\<open>ConnectError\<close>, \<^verbatim>\<open>QueryError\<close>, \<^verbatim>\<open>ValueError\<close>, \<^verbatim>\<open>TypeError\<close>,
  \<^verbatim>\<open>NotImplementedError\<close>).
\<close>

fun declared_error_kind :: "exn \<Rightarrow> bool" where
  "declared_error_kind ConnectError = True"
| "declared_error_kind QueryError = True"
| "declared_error_kind ValueError = True"
| "declared_error_kind TypeError = True"
| "declared_error_kind NotImplementedError = True"
| "declared_error_kind _ = False"

text \<open>
  The scalars a driver hands back. \<open>PNone\<close> is SQL NULL; \<open>POther\<close> is any other
  Python object (a \<^verbatim>\<open>Decimal\<close>, a \<^verbatim>\<open>datetime\<close>, ...), kept by a printed form.
\<close>

datatype pyval = PNone | PInt int | PStr string | POther string

type_synonym row = "pyval list"

subsection \<open>Strings\<close>

text \<open>\<^verbatim>\<open>str(i)\<close> for an integer, and \<^verbatim>\<open>f"{x}"\<close> for an optional integer.\<close>

fun str_nat :: "nat \<Rightarrow> string" where
  "str_nat n =
     (if n < 10 then [char_of (48 + n)]
      else str_nat (n div 10) @ [char_of (48 + n mod 10)])"

declare str_nat.simps [simp del]

definition str_int :: "int \<Rightarrow> string" where
  "str_int i = (if i < 0 then CHR ''-'' # str_nat (nat (- i)) else str_nat (nat i))"

fun format_opt_int :: "int option \<Rightarrow> string" where
  "format_opt_int None = ''None''"
| "format_opt_int (Some i) = str_int i"

text \<open>\<^verbatim>\<open>s.lower()\<close> and \<^verbatim>\<open>s.startswith(p)\<close>, on ASCII strings.\<close>

definition lower_char :: "char \<Rightarrow> char" where
  "lower_char c =
     (let k = (of_char c :: nat) in if 65 \<le> k \<and> k \<le> 90 then char_of (k + 32) else c)"

definition lower :: "string \<Rightarrow> string" where
  "lower s = map lower_char s"

definition startswith :: "string \<Rightarrow> string \<Rightarrow> bool" where
  "startswith s p = (take (length p) s = p)"

text \<open>\<^verbatim>\<open>'.'.join(parts)\<close>.\<close>

fun join_dot :: "string list \<Rightarrow> string" where
  "join_dot [] = []"
| "join_dot [p] = p"
| "join_dot (p # ps) = p @ ''.'' @ join_dot ps"

section \<open>Column types\<close>

text \<open>
  Modelled from the spec: the classes of \<^verbatim>\<open>data_diff.databases.database_types\<close>
  (\<^verbatim>\<open>Integer\<close>, \<^verbatim>\<open>Decimal\<close>, \<^verbatim>\<open>Float\<close>, \<^verbatim>\<open>TemporalType\<close>, \<^verbatim>\<open>Text\<close>,
  \<^verbatim>\<open>ColType_UUID\<close>, \<^verbatim>\<open>UnknownColType\<close>) are imported by \<^verbatim>\<open>base.py\<close> and defined
  elsewhere. The specification gives the column type as a closed tagged variant
  \<open>Integer, Decimal(precision), Float(precision), Temporal(precision, rounds), Text, UUID,
  Unknown(raw_repr)\<close>: \<open>ColType\<close> is the instance, \<open>col_class\<close> the class that
  \<^verbatim>\<open>TYPE_CLASSES\<close> maps a type name to, each class being of exactly one kind.
\<close>

datatype ColType =
    Integer
  | Decimal int
  | Float int
  | Temporal int bool
  | Text
  | ColType_UUID
  | UnknownColType string

datatype col_class =
    TemporalClass | IntegerClass | DecimalClass | FloatClass | TextClass | OtherClass

section \<open>The database object\<close>

text \<open>
  The abstract syntax of \<^verbatim>\<open>data_diff.sql\<close> that \<^verbatim>\<open>base.py\<close> builds: a string of SQL,
  \<^verbatim>\<open>Select(columns, TableName(path), limit=n)\<close> and \<^verbatim>\<open>Explain(ast)\<close>.
\<close>

datatype sql_ast =
    SqlStr string
  | Select "string list" "string list" "int option"
  | Explain sql_ast

text \<open>
  The fields of \<^verbatim>\<open>self\<close> that the methods of \<^verbatim>\<open>Database\<close> read:
  \<^item> \<open>default_schema\<close>, \<open>TYPE_CLASSES\<close>, \<open>ROUNDS_ON_PREC_LOSS\<close>: class attributes;
  \<^item> \<open>interactive\<close>: \<^verbatim>\<open>getattr(self, "_interactive", False)\<close>;
  \<^item> \<open>raw_query\<close>: the abstract method \<^verbatim>\<open>_query(sql_code)\<close>, which returns the rows of a
    SELECT and \<^verbatim>\<open>None\<close> for another statement, or raises;
  \<^item> \<open>compile\<close>: \<^verbatim>\<open>Compiler(self).compile\<close>, of \<^verbatim>\<open>data_diff.sql\<close>, taken as given;
  \<^item> \<open>convert_db_precision_to_digits\<close>: the method
    \<^verbatim>\<open>_convert_db_precision_to_digits\<close>, \<^verbatim>\<open>math.floor(math.log(2**p, 10))\<close>, which is
    computed in floating point and taken as given.
\<close>

record database =
  default_schema :: "string option"
  TYPE_CLASSES :: "string \<rightharpoonup> col_class"
  ROUNDS_ON_PREC_LOSS :: bool
  interactive :: bool
  raw_query :: "string \<Rightarrow> exn + row list option"
  compile :: "sql_ast \<Rightarrow> string"
  convert_db_precision_to_digits :: "int \<Rightarrow> exn + int"

subsection \<open>\<^verbatim>\<open>Database._normalize_table_path\<close>\<close>

text \<open>
  \<^verbatim>\<open>
  def _normalize_table_path(self, path: DbPath) -> DbPath:
      if len(path) == 1:
          if self.default_schema:
              return self.default_schema, path[0]
      elif len(path) != 2:
          raise ValueError(...)
      return path
  \<close>
  \<^verbatim>\<open>if self.default_schema\<close> is Python truthiness: \<^verbatim>\<open>None\<close> and the empty string
  are false.
\<close>

definition normalize_table_path :: "'a database_scheme \<Rightarrow> string list \<Rightarrow> exn + string list" where
  "normalize_table_path self path =
     (case path of
        [table] \<Rightarrow>
          (case default_schema self of
             Some schema \<Rightarrow> if schema \<noteq> [] then Inr [schema, table] else Inr path
           | None \<Rightarrow> Inr path)
      | _ \<Rightarrow> if length path \<noteq> 2 then Inl ValueError else Inr path)"

subsection \<open>\<^verbatim>\<open>Database.offset_limit\<close>\<close>

text \<open>
  \<^verbatim>\<open>
  def offset_limit(self, offset: Optional[int] = None, limit: Optional[int] = None):
      if offset:
          raise NotImplementedError("No support for OFFSET in query")
      return f"LIMIT {limit}"
  \<close>
  \<^verbatim>\<open>if offset\<close> is false for \<^verbatim>\<open>None\<close> and for \<open>0\<close>, true for every other integer.
\<close>

fun truthy_int :: "int option \<Rightarrow> bool" where
  "truthy_int None = False"
| "truthy_int (Some i) = (i \<noteq> 0)"

definition offset_limit :: "int option \<Rightarrow> int option \<Rightarrow> exn + string" where
  "offset_limit offset limit =
     (if truthy_int offset then Inl NotImplementedError
      else Inr (''LIMIT '' @ format_opt_int limit))"

subsection \<open>\<^verbatim>\<open>Database._parse_type\<close>\<close>

text \<open>
  \<^verbatim>\<open>
  cls = self._parse_type_repr(type_repr)          # self.TYPE_CLASSES.get(type_repr)
  if not cls:
      return UnknownColType(type_repr)
  if issubclass(cls, TemporalType):
      return cls(precision=datetime_precision if datetime_precision is not None
                           else DEFAULT_DATETIME_PRECISION,
                 rounds=self.ROUNDS_ON_PREC_LOSS)
  elif issubclass(cls, Integer):
      return cls()
  elif issubclass(cls, Decimal):
      if numeric_scale is None:
          raise ValueError(...)
      return cls(precision=numeric_scale)
  elif issubclass(cls, Float):
      return cls(precision=self._convert_db_precision_to_digits(
          numeric_precision if numeric_precision is not None else DEFAULT_NUMERIC_PRECISION))
  elif issubclass(cls, Text):
      return cls()
  raise TypeError(...)
  \<close>
\<close>

definition parse_type_repr :: "'a database_scheme \<Rightarrow> string \<Rightarrow> col_class option" where
  "parse_type_repr self type_repr = TYPE_CLASSES self type_repr"

definition parse_type ::
  "'a database_scheme \<Rightarrow> string list \<Rightarrow> string \<Rightarrow> string \<Rightarrow>
     int option \<Rightarrow> int option \<Rightarrow> int option \<Rightarrow> exn + ColType" where
  "parse_type self table_path col_name type_repr datetime_precision numeric_precision numeric_scale =
     (case parse_type_repr self type_repr of
        None \<Rightarrow> Inr (UnknownColType type_repr)
      | Some TemporalClass \<Rightarrow>
          Inr (Temporal
                 (case datetime_precision of Some p \<Rightarrow> p | None \<Rightarrow> DEFAULT_DATETIME_PRECISION)
                 (ROUNDS_ON_PREC_LOSS self))
      | Some IntegerClass \<Rightarrow> Inr Integer
      | Some DecimalClass \<Rightarrow>
          (case numeric_scale of
             None \<Rightarrow> Inl ValueError
           | Some sc \<Rightarrow> Inr (Decimal sc))
      | Some FloatClass \<Rightarrow>
          (case convert_db_precision_to_digits self
                  (case numeric_precision of Some p \<Rightarrow> p | None \<Rightarrow> DEFAULT_NUMERIC_PRECISION) of
             Inl e \<Rightarrow> Inl e
           | Inr d \<Rightarrow> Inr (Float d))
      | Some TextClass \<Rightarrow> Inr Text
      | Some OtherClass \<Rightarrow> Inl TypeError)"

subsection \<open>\<^verbatim>\<open>Database.query\<close>\<close>

text \<open>
  What the Python runtime and the modules outside \<^verbatim>\<open>base.py\<close> supply:
  \<^item> \<open>py_int\<close>: the builtin \<^verbatim>\<open>int(x)\<close> on a scalar of a driver, which may raise;
  \<^item> \<open>is_uuid\<close>: \<^verbatim>\<open>data_diff.utils.is_uuid\<close>, whether a value is a well-formed UUID;
  \<^item> \<open>safezip\<close>: \<^verbatim>\<open>data_diff.utils.safezip\<close>;
  \<^item> \<open>answer\<close>: what \<^verbatim>\<open>input("Continue? [y/n] ")\<close> reads from the terminal.
\<close>

record runtime =
  py_int :: "pyval \<Rightarrow> exn + int"
  is_uuid :: "pyval \<Rightarrow> bool"
  safezip :: "string list \<Rightarrow> pyval list list \<Rightarrow> exn + (string \<times> pyval list) list"
  answer :: string

text \<open>
  The \<^verbatim>\<open>res_type\<close> argument, by the branch of \<^verbatim>\<open>query\<close> it selects: \<^verbatim>\<open>int\<close>,
  \<^verbatim>\<open>tuple\<close>, \<^verbatim>\<open>List[int]\<close>, \<^verbatim>\<open>List[str]\<close>, \<^verbatim>\<open>List[Tuple]\<close>, \<^verbatim>\<open>List[X]\<close> for
  another \<open>X\<close>, and anything else (\<^verbatim>\<open>None\<close>, the bare \<^verbatim>\<open>list\<close>), for which the raw
  result is returned.
\<close>

datatype res_type =
    RT_int | RT_tuple | RT_List_int | RT_List_str | RT_List_Tuple | RT_List_other | RT_other

datatype qresult =
    QNone
  | QInt int
  | QRow row
  | QScalars "pyval list"
  | QRows "row list"

text \<open>
  \<^verbatim>\<open>
  def _one(seq):
      (x,) = seq
      return x
  \<close>
  Unpacking a sequence whose length is not 1 raises \<^verbatim>\<open>ValueError\<close>.
\<close>

definition one :: "'a list \<Rightarrow> exn + 'a" where
  "one seq = (case seq of [x] \<Rightarrow> Inr x | _ \<Rightarrow> Inl ValueError)"

text \<open>A list comprehension whose element expression may raise: the first error wins.\<close>

fun collect :: "(exn + 'a) list \<Rightarrow> exn + 'a list" where
  "collect [] = Inr []"
| "collect (Inl e # rs) = Inl e"
| "collect (Inr x # rs) = (case collect rs of Inl e \<Rightarrow> Inl e | Inr xs \<Rightarrow> Inr (x # xs))"

fun is_Select :: "sql_ast \<Rightarrow> bool" where
  "is_Select (Select columns table limit) = True"
| "is_Select _ = False"

text \<open>
  The interactive step of \<^verbatim>\<open>query\<close>:
  \<^verbatim>\<open>
  if getattr(self, "_interactive", False) and isinstance(sql_ast, Select):
      explained_sql = compiler.compile(Explain(sql_ast))
      logger.info(self._query(explained_sql))
      answer = input("Continue? [y/n] ")
      if not answer.lower() in ["y", "yes"]:
          sys.exit(1)
  \<close>
\<close>

definition confirm :: "runtime \<Rightarrow> 'a database_scheme \<Rightarrow> sql_ast \<Rightarrow> exn + unit" where
  "confirm rt self sql_ast =
     (if interactive self \<and> is_Select sql_ast then
        (case raw_query self (compile self (Explain sql_ast)) of
           Inl e \<Rightarrow> Inl e
         | Inr explained \<Rightarrow>
             if lower (answer rt) \<in> set [''y'', ''yes''] then Inr () else Inl (SystemExit 1))
      else Inr ())"

text \<open>
  The conversion of the raw result \<^verbatim>\<open>res\<close>:
  \<^verbatim>\<open>
  if res_type is int:
      res = _one(_one(res))
      if res is None:  # May happen due to sum() of 0 items
          return None
      return int(res)
  elif res_type is tuple:
      assert len(res) == 1, (sql_code, res)
      return res[0]
  elif getattr(res_type, "__origin__", None) is list and len(res_type.__args__) == 1:
      if res_type.__args__ == (int,) or res_type.__args__ == (str,):
          return [_one(row) for row in res]
      elif res_type.__args__ == (Tuple,):
          return [tuple(row) for row in res]
      else:
          raise ValueError(res_type)
  return res
  \<close>
  Where \<^verbatim>\<open>res\<close> is \<^verbatim>\<open>None\<close> (the statement was not a SELECT), unpacking it, taking
  its length and iterating over it raise \<^verbatim>\<open>TypeError\<close>.
\<close>

definition convert_result :: "runtime \<Rightarrow> res_type \<Rightarrow> row list option \<Rightarrow> exn + qresult" where
  "convert_result rt res_type res =
     (case res_type of
        RT_int \<Rightarrow>
          (case res of
             None \<Rightarrow> Inl TypeError
           | Some rows \<Rightarrow>
               (case one rows of
                  Inl e \<Rightarrow> Inl e
                | Inr r \<Rightarrow>
                    (case one r of
                       Inl e \<Rightarrow> Inl e
                     | Inr v \<Rightarrow>
                         if v = PNone then Inr QNone
                         else (case py_int rt v of Inl e \<Rightarrow> Inl e | Inr i \<Rightarrow> Inr (QInt i)))))
      | RT_tuple \<Rightarrow>
          (case res of
             None \<Rightarrow> Inl TypeError
           | Some rows \<Rightarrow> (case rows of [r] \<Rightarrow> Inr (QRow r) | _ \<Rightarrow> Inl AssertionError))
      | RT_List_int \<Rightarrow>
          (case res of
             None \<Rightarrow> Inl TypeError
           | Some rows \<Rightarrow>
               (case collect (map one rows) of Inl e \<Rightarrow> Inl e | Inr vs \<Rightarrow> Inr (QScalars vs)))
      | RT_List_str \<Rightarrow>
          (case res of
             None \<Rightarrow> Inl TypeError
           | Some rows \<Rightarrow>
               (case collect (map one rows) of Inl e \<Rightarrow> Inl e | Inr vs \<Rightarrow> Inr (QScalars vs)))
      | RT_List_Tuple \<Rightarrow>
          (case res of None \<Rightarrow> Inl TypeError | Some rows \<Rightarrow> Inr (QRows rows))
      | RT_List_other \<Rightarrow> Inl ValueError
      | RT_other \<Rightarrow> (case res of None \<Rightarrow> Inr QNone | Some rows \<Rightarrow> Inr (QRows rows)))"

text \<open>
  \<^verbatim>\<open>
  def query(self, sql_ast: SqlOrStr, res_type: type):
      compiler = Compiler(self)
      sql_code = compiler.compile(sql_ast)
      ... the interactive step ...
      res = self._query(sql_code)
      ... the conversion of res ...
  \<close>
\<close>

definition query :: "runtime \<Rightarrow> 'a database_scheme \<Rightarrow> sql_ast \<Rightarrow> res_type \<Rightarrow> exn + qresult" where
  "query rt self sql_ast res_type =
     (let sql_code = compile self sql_ast in
      case confirm rt self sql_ast of
        Inl e \<Rightarrow> Inl e
      | Inr proceed \<Rightarrow>
          (case raw_query self sql_code of
             Inl e \<Rightarrow> Inl e
           | Inr res \<Rightarrow> convert_result rt res_type res))"




subsection \<open>\<^verbatim>\<open>Database.query_table_schema\<close> and \<^verbatim>\<open>Database._refine_coltypes\<close>\<close>

text \<open>
  \<^verbatim>\<open>
  def select_table_schema(self, path: DbPath) -> str:
      schema, table = self._normalize_table_path(path)
      return ("SELECT column_name, data_type, datetime_precision, numeric_precision, "
              "numeric_scale FROM information_schema.columns "
              f"WHERE table_name = '{table}' AND table_schema = '{schema}'")
  \<close>
  Unpacking a normalized path that does not have exactly 2 components raises
  \<^verbatim>\<open>ValueError\<close>.
\<close>

definition select_table_schema :: "'a database_scheme \<Rightarrow> string list \<Rightarrow> exn + string" where
  "select_table_schema self path =
     (case normalize_table_path self path of
        Inl e \<Rightarrow> Inl e
      | Inr [schema, table] \<Rightarrow>
          Inr (''SELECT column_name, data_type, datetime_precision, numeric_precision, numeric_scale FROM information_schema.columns ''
               @ ''WHERE table_name = '' @ [CHR 0x27] @ table @ [CHR 0x27]
               @ '' AND table_schema = '' @ [CHR 0x27] @ schema @ [CHR 0x27])
      | Inr _ \<Rightarrow> Inl ValueError)"

text \<open>
  \<^verbatim>\<open>def normalize_uuid(self, value: str, coltype: ColType_UUID) -> str:
      return f"TRIM({value})"\<close>
\<close>

definition normalize_uuid :: "string \<Rightarrow> ColType \<Rightarrow> string" where
  "normalize_uuid val coltype = ''TRIM('' @ val @ '')''"

text \<open>
  \<^verbatim>\<open>zip(*rows)\<close>: the columns of a list of rows, cut at the shortest row; no columns
  for no rows.
\<close>

fun zip_star :: "'a list list \<Rightarrow> 'a list list" where
  "zip_star [] = []"
| "zip_star [r] = map (\<lambda>x. [x]) r"
| "zip_star (r # rs) = map (\<lambda>(x, col). x # col) (zip r (zip_star rs))"

text \<open>
  A \<^verbatim>\<open>Dict[str, ColType]\<close> keeps its keys in insertion order, which fixes the order
  of \<^verbatim>\<open>text_columns\<close>: it is an association list, and \<^verbatim>\<open>col_dict[k] = v\<close> is
  \<open>AList.update k v\<close> (the value is replaced in place, a new key goes last).

  One round of the loop of \<^verbatim>\<open>_refine_coltypes\<close>, on the warnings logged so far (by
  column name) and the dictionary:
  \<^verbatim>\<open>
  uuid_samples = list(filter(is_uuid, samples))
  if uuid_samples:
      if len(uuid_samples) != len(samples):
          logger.warning(f"Mixed UUID/Non-UUID values detected in column ...")
      else:
          assert col_name in col_dict
          col_dict[col_name] = ColType_UUID()
  \<close>
\<close>

type_synonym col_dict = "(string \<times> ColType) list"

definition refine_step ::
  "runtime \<Rightarrow> string list \<times> col_dict \<Rightarrow> string \<times> pyval list \<Rightarrow> string list \<times> col_dict" where
  "refine_step rt st p =
     (case (st, p) of ((warnings, col_dict), (col_name, samples)) \<Rightarrow>
        (let uuid_samples = filter (is_uuid rt) samples in
         if uuid_samples \<noteq> [] then
           (if length uuid_samples \<noteq> length samples then (warnings @ [col_name], col_dict)
            else (warnings, AList.update col_name ColType_UUID col_dict))
         else (warnings, col_dict)))"

text \<open>The statement that samples the text columns, with its \<^verbatim>\<open>limit=16\<close>.\<close>

definition sample_select :: "string list \<Rightarrow> string list \<Rightarrow> sql_ast" where
  "sample_select table_path text_columns =
     Select (map (\<lambda>c. normalize_uuid c ColType_UUID) text_columns) table_path (Some 16)"

text \<open>
  \<^verbatim>\<open>
  def _refine_coltypes(self, table_path, col_dict):
      text_columns = [k for k, v in col_dict.items() if isinstance(v, Text)]
      if not text_columns:
          return
      fields = [self.normalize_uuid(c, ColType_UUID()) for c in text_columns]
      samples_by_row = self.query(Select(fields, TableName(table_path), limit=16), list)
      samples_by_col = list(zip(*samples_by_row))
      for col_name, samples in safezip(text_columns, samples_by_col):
          ... one round ...
  \<close>
  The method mutates \<^verbatim>\<open>col_dict\<close>; the model returns the warnings logged and the
  dictionary after the loop.
\<close>

definition text_columns_of :: "col_dict \<Rightarrow> string list" where
  "text_columns_of col_dict = map fst (filter (\<lambda>(k, v). v = Text) col_dict)"

definition refine_coltypes ::
  "runtime \<Rightarrow> 'a database_scheme \<Rightarrow> string list \<Rightarrow> col_dict \<Rightarrow> exn + string list \<times> col_dict" where
  "refine_coltypes rt self table_path col_dict =
     (let text_columns = text_columns_of col_dict in
      if text_columns = [] then Inr ([], col_dict)
      else
        (case query rt self (sample_select table_path text_columns) RT_other of
           Inl e \<Rightarrow> Inl e
         | Inr (QRows samples_by_row) \<Rightarrow>
             (case safezip rt text_columns (zip_star samples_by_row) of
                Inl e \<Rightarrow> Inl e
              | Inr pairs \<Rightarrow> Inr (foldl (refine_step rt) ([], col_dict) pairs))
         | Inr _ \<Rightarrow> Inl TypeError))"






text \<open>
  A row of \<^verbatim>\<open>information_schema.columns\<close> as the arguments of \<^verbatim>\<open>_parse_type\<close>
  (\<^verbatim>\<open>self._parse_type(path, *row)\<close>): the column name and the type name, then up to
  three optional integers that default to \<^verbatim>\<open>None\<close>. The key \<^verbatim>\<open>row[0]\<close> of an empty
  row is an \<^verbatim>\<open>IndexError\<close>; a row of 1 value or of more than 5 values is a
  \<^verbatim>\<open>TypeError\<close> of the call. Values outside the annotated types
  (\<^verbatim>\<open>str\<close>, and \<^verbatim>\<open>int\<close> or \<^verbatim>\<open>None\<close>) are outside this model and also mapped to
  \<^verbatim>\<open>TypeError\<close>.
\<close>

fun opt_int_arg :: "pyval \<Rightarrow> exn + int option" where
  "opt_int_arg PNone = Inr None"
| "opt_int_arg (PInt i) = Inr (Some i)"
| "opt_int_arg _ = Inl TypeError"

fun nth_arg :: "row \<Rightarrow> nat \<Rightarrow> exn + int option" where
  "nth_arg r i = (if i < length r then opt_int_arg (r ! i) else Inr None)"

definition parse_row :: "'a database_scheme \<Rightarrow> string list \<Rightarrow> row \<Rightarrow> exn + string \<times> ColType" where
  "parse_row self path r =
     (if r = [] then Inl IndexError
      else if length r < 2 \<or> 5 < length r then Inl TypeError
      else
        (case (r ! 0, r ! 1, nth_arg r 2, nth_arg r 3, nth_arg r 4) of
           (PStr col_name, PStr type_repr, Inr datetime_precision, Inr numeric_precision,
            Inr numeric_scale) \<Rightarrow>
             (case parse_type self path col_name type_repr datetime_precision numeric_precision
                     numeric_scale of
                Inl e \<Rightarrow> Inl e
              | Inr t \<Rightarrow> Inr (col_name, t))
         | _ \<Rightarrow> Inl TypeError))"

text \<open>\<^verbatim>\<open>r[0].lower() in accept\<close>, for a row \<open>r\<close>.\<close>

definition accepted :: "string list \<Rightarrow> row \<Rightarrow> exn + bool" where
  "accepted filter_columns r =
     (case r of
        [] \<Rightarrow> Inl IndexError
      | PStr col_name # _ \<Rightarrow> Inr (lower col_name \<in> set (map lower filter_columns))
      | _ \<Rightarrow> Inl AttributeError)"

definition filter_rows :: "string list option \<Rightarrow> row list \<Rightarrow> exn + row list" where
  "filter_rows filter_columns rows =
     (case filter_columns of
        None \<Rightarrow> Inr rows
      | Some cols \<Rightarrow>
          (case collect (map (accepted cols) rows) of
             Inl e \<Rightarrow> Inl e
           | Inr keep \<Rightarrow> Inr (map fst (filter snd (zip rows keep)))))"

text \<open>
  \<^verbatim>\<open>
  def query_table_schema(self, path, filter_columns=None) -> Dict[str, ColType]:
      rows = self.query(self.select_table_schema(path), list)
      if not rows:
          raise RuntimeError(f"{self.name}: Table '...' does not exist, or has no columns")
      if filter_columns is not None:
          accept = {i.lower() for i in filter_columns}
          rows = [r for r in rows if r[0].lower() in accept]
      col_dict = {row[0]: self._parse_type(path, *row) for row in rows}
      self._refine_coltypes(path, col_dict)
      return col_dict
  \<close>
\<close>

definition query_table_schema ::
  "runtime \<Rightarrow> 'a database_scheme \<Rightarrow> string list \<Rightarrow> string list option \<Rightarrow> exn + col_dict" where
  "query_table_schema rt self path filter_columns =
     (case select_table_schema self path of
        Inl e \<Rightarrow> Inl e
      | Inr sql_code \<Rightarrow>
          (case query rt self (SqlStr sql_code) RT_other of
             Inl e \<Rightarrow> Inl e
           | Inr (QRows []) \<Rightarrow> Inl RuntimeError
           | Inr QNone \<Rightarrow> Inl RuntimeError
           | Inr (QRows rows) \<Rightarrow>
               (case filter_rows filter_columns rows of
                  Inl e \<Rightarrow> Inl e
                | Inr rows' \<Rightarrow>
                    (case collect (map (parse_row self path) rows') of
                       Inl e \<Rightarrow> Inl e
                     | Inr entries \<Rightarrow>
                         (case refine_coltypes rt self path
                                 (foldl (\<lambda>d (k, v). AList.update k v d) [] entries) of
                            Inl e \<Rightarrow> Inl e
                          | Inr (warnings, col_dict) \<Rightarrow> Inr col_dict)))
           | Inr _ \<Rightarrow> Inl TypeError))"

section \<open>\<^verbatim>\<open>ThreadedDatabase\<close>\<close>

text \<open>
  A connection is what \<^verbatim>\<open>conn.cursor().execute(sql_code)\<close> followed by
  \<^verbatim>\<open>fetchall()\<close> gives: the rows, or an exception of the driver.
  \<^verbatim>\<open>
  def _query_conn(conn, sql_code: str) -> list:
      c = conn.cursor()
      c.execute(sql_code)
      if sql_code.lower().startswith("select"):
          return c.fetchall()
  \<close>
\<close>

type_synonym conn = "string \<Rightarrow> exn + row list"

definition query_conn :: "conn \<Rightarrow> string \<Rightarrow> exn + row list option" where
  "query_conn conn sql_code =
     (case conn sql_code of
        Inl e \<Rightarrow> Inl e
      | Inr rows \<Rightarrow> if startswith (lower sql_code) ''select'' then Inr (Some rows) else Inr None)"

text \<open>
  The state of a \<^verbatim>\<open>ThreadedDatabase\<close>, threads being numbered:
  \<^item> \<open>init_error\<close>: \<^verbatim>\<open>self._init_error\<close>, one attribute shared by all workers;
  \<^item> \<open>thread_conn\<close>: \<^verbatim>\<open>self.thread_local.conn\<close> as each worker thread sees it;
  \<^item> \<open>broken\<close>: whether the \<^verbatim>\<open>ThreadPoolExecutor\<close> \<^verbatim>\<open>self._queue\<close> is broken. The
    executor runs the initializer in each worker thread it starts; when the initializer
    raises, the executor is marked broken and every later \<^verbatim>\<open>submit\<close> raises
    \<^verbatim>\<open>BrokenThreadPool\<close>;
  \<^item> \<open>executed\<close>: the statements the connections have executed, with the worker, in
    order: the trace of the effect of \<^verbatim>\<open>c.execute\<close>.
  Which worker a task runs on is the executor's choice, an argument of the model.
\<close>

record threaded_database =
  init_error :: "exn option"
  thread_conn :: "nat \<rightharpoonup> conn"
  broken :: bool
  executed :: "(nat \<times> string) list"

text \<open>
  \<^verbatim>\<open>
  def __init__(self, thread_count=1):
      self._init_error = None
      self._queue = ThreadPoolExecutor(thread_count, initializer=self.set_conn)
      self.thread_local = threading.local()
  \<close>
\<close>

definition threaded_database_init :: threaded_database where
  "threaded_database_init =
     \<lparr>init_error = None, thread_conn = Map.empty, broken = False, executed = []\<rparr>"

text \<open>
  \<^verbatim>\<open>
  def set_conn(self):
      assert not hasattr(self.thread_local, "conn")
      try:
          self.thread_local.conn = self.create_connection()
      except ModuleNotFoundError as e:
          self._init_error = e
  \<close>
  \<open>created\<close> is the outcome of the abstract \<^verbatim>\<open>create_connection()\<close> in worker \<open>w\<close>.
  Only \<^verbatim>\<open>ModuleNotFoundError\<close> is caught; any other exception leaves \<^verbatim>\<open>set_conn\<close>.
\<close>

fun set_conn :: "nat \<Rightarrow> exn + conn \<Rightarrow> threaded_database \<Rightarrow> exn + threaded_database" where
  "set_conn w created self =
     (if thread_conn self w \<noteq> None then Inl AssertionError
      else
        (case created of
           Inr c \<Rightarrow> Inr (self\<lparr>thread_conn := (thread_conn self)(w \<mapsto> c)\<rparr>)
         | Inl (ModuleNotFoundError m) \<Rightarrow> Inr (self\<lparr>init_error := Some (ModuleNotFoundError m)\<rparr>)
         | Inl e \<Rightarrow> Inl e))"

text \<open>The executor starting worker \<open>w\<close>: it runs the initializer \<^verbatim>\<open>set_conn\<close>.\<close>

definition start_worker :: "nat \<Rightarrow> exn + conn \<Rightarrow> threaded_database \<Rightarrow> threaded_database" where
  "start_worker w created self =
     (case set_conn w created self of
        Inl e \<Rightarrow> self\<lparr>broken := True\<rparr>
      | Inr self' \<Rightarrow> self')"

text \<open>
  \<^verbatim>\<open>
  def _query_in_worker(self, sql_code: str):
      "This method runs in a worker thread"
      if self._init_error:
          raise self._init_error
      return _query_conn(self.thread_local.conn, sql_code)
  \<close>
  A worker thread without \<^verbatim>\<open>thread_local.conn\<close> raises \<^verbatim>\<open>AttributeError\<close>.
\<close>

definition query_in_worker ::
  "nat \<Rightarrow> string \<Rightarrow> threaded_database \<Rightarrow> (exn + row list option) \<times> threaded_database" where
  "query_in_worker w sql_code self =
     (case init_error self of
        Some e \<Rightarrow> (Inl e, self)
      | None \<Rightarrow>
          (case thread_conn self w of
             None \<Rightarrow> (Inl AttributeError, self)
           | Some c \<Rightarrow> (query_conn c sql_code, self\<lparr>executed := executed self @ [(w, sql_code)]\<rparr>)))"

text \<open>
  \<^verbatim>\<open>
  def _query(self, sql_code: str):
      r = self._queue.submit(self._query_in_worker, sql_code)
      return r.result()
  \<close>
  \<^verbatim>\<open>r.result()\<close> returns what the task returned or raises what it raised.
\<close>

definition threaded_query ::
  "nat \<Rightarrow> string \<Rightarrow> threaded_database \<Rightarrow> (exn + row list option) \<times> threaded_database" where
  "threaded_query w sql_code self =
     (if broken self then (Inl BrokenThreadPool, self) else query_in_worker w sql_code self)"

text \<open>The workers the executor starts later, in order, each with the outcome of its connection.\<close>

definition start_workers :: "(nat \<times> (exn + conn)) list \<Rightarrow> threaded_database \<Rightarrow> threaded_database" where
  "start_workers ws self = foldl (\<lambda>s (w, created). start_worker w created s) self ws"

section \<open>Key space partitioner\<close>

text \<open>
  Modelled from the spec: \<^verbatim>\<open>split_space\<close> is imported by the tests from
  \<^verbatim>\<open>data_diff.diff_tables\<close>, whose source is not among the files of this development.
  The specification gives it by the formula
  \<open>points[i] = lo + round((i+1) * (hi - lo) / (n + 1))\<close> for \<open>i = 0, ..., n-1\<close>,
  over exact arithmetic. The formula does not say how \<open>round\<close> breaks a tie: it is Python's
  \<^verbatim>\<open>round\<close> (half to even) under \<open>HalfEven\<close> and the nearest integer with halves up under
  \<open>HalfUp\<close>, and every statement below is for both.
\<close>

datatype rounding = HalfEven | HalfUp

definition round_to :: "rounding \<Rightarrow> rat \<Rightarrow> int" where
  "round_to md x =
     (case md of
        HalfUp \<Rightarrow> \<lfloor>x + 1 / 2\<rfloor>
      | HalfEven \<Rightarrow>
          (let f = \<lfloor>x\<rfloor>; d = x - of_int f in
           if d < 1 / 2 then f else if 1 / 2 < d then f + 1 else if even f then f else f + 1))"

definition split_point :: "rounding \<Rightarrow> int \<Rightarrow> int \<Rightarrow> int \<Rightarrow> nat \<Rightarrow> int" where
  "split_point md lo hi n i = lo + round_to md (of_int ((int i + 1) * (hi - lo)) / of_int (n + 1))"

definition split_space :: "rounding \<Rightarrow> int \<Rightarrow> int \<Rightarrow> int \<Rightarrow> int list" where
  "split_space md lo hi n = map (split_point md lo hi n) [0..<nat n]"

text \<open>The contract of the partitioner, on a result \<open>points\<close>.\<close>

definition strictly_inside :: "int \<Rightarrow> int \<Rightarrow> int list \<Rightarrow> bool" where
  "strictly_inside lo hi points = list_all (\<lambda>y. lo < y \<and> y < hi) points"

definition partition_ok :: "int \<Rightarrow> int \<Rightarrow> int \<Rightarrow> int list \<Rightarrow> bool" where
  "partition_ok lo hi n points \<longleftrightarrow>
     int (length points) = n \<and> sorted_wrt (<) points \<and> strictly_inside lo hi points"

section \<open>Example objects\<close>

text \<open>
  \<open>plain_database\<close> has the class attributes of \<^verbatim>\<open>Database\<close> itself
  (\<^verbatim>\<open>TYPE_CLASSES = {}\<close>, \<^verbatim>\<open>default_schema = None\<close>) and a connection that answers
  every statement with no rows; \<open>pg_database\<close> is a connector with a default schema and
  a few type names.
\<close>

definition no_rows :: "string \<Rightarrow> exn + row list option" where
  "no_rows sql_code = Inr (Some [])"

definition compile_str :: "sql_ast \<Rightarrow> string" where
  "compile_str sql_ast = (case sql_ast of SqlStr s \<Rightarrow> s | _ \<Rightarrow> ''SELECT ...'')"

definition exact_digits :: "int \<Rightarrow> exn + int" where
  "exact_digits p = Inr (if p = 24 then 7 else if p = 53 then 15 else 0)"

definition plain_database :: database where
  "plain_database =
     \<lparr>default_schema = None, TYPE_CLASSES = Map.empty, ROUNDS_ON_PREC_LOSS = False,
      interactive = False, raw_query = no_rows, compile = compile_str,
      convert_db_precision_to_digits = exact_digits\<rparr>"

definition pg_database :: database where
  "pg_database =
     \<lparr>default_schema = Some ''public'',
      TYPE_CLASSES = [''integer'' \<mapsto> IntegerClass, ''numeric'' \<mapsto> DecimalClass,
                      ''real'' \<mapsto> FloatClass, ''timestamp'' \<mapsto> TemporalClass,
                      ''text'' \<mapsto> TextClass],
      ROUNDS_ON_PREC_LOSS = True,
      interactive = False, raw_query = no_rows, compile = compile_str,
      convert_db_precision_to_digits = exact_digits\<rparr>"

text \<open>
  \<open>plain_runtime\<close>: \<^verbatim>\<open>int\<close> on integers, a zip that refuses sequences of different
  lengths, a check of the 8-4-4-4-12 shape of a UUID by its length and hyphens, and a user
  who answers \<^verbatim>\<open>y\<close>.
\<close>

definition int_of_pyval :: "pyval \<Rightarrow> exn + int" where
  "int_of_pyval v = (case v of PInt i \<Rightarrow> Inr i | _ \<Rightarrow> Inl TypeError)"

definition strict_zip :: "string list \<Rightarrow> pyval list list \<Rightarrow> exn + (string \<times> pyval list) list" where
  "strict_zip xs ys = (if length xs = length ys then Inr (zip xs ys) else Inl AssertionError)"

definition uuid_shaped :: "pyval \<Rightarrow> bool" where
  "uuid_shaped v =
     (case v of
        PStr s \<Rightarrow> length s = 36 \<and> map (\<lambda>i. s ! i) [8, 13, 18, 23] = ''----''
      | _ \<Rightarrow> False)"

definition plain_runtime :: runtime where
  "plain_runtime =
     \<lparr>py_int = int_of_pyval, is_uuid = uuid_shaped, safezip = strict_zip, answer = ''y''\<rparr>"





section \<open>Properties\<close>

lemma CHECKSUM_BITSIZE_value: "CHECKSUM_BITSIZE = 60"
  by (simp add: CHECKSUM_BITSIZE_def CHECKSUM_HEXDIGITS_def push_bit_eq_mult)

lemma CHECKSUM_MASK_value: "CHECKSUM_MASK = 2 ^ 60 - 1"
  by (simp add: CHECKSUM_MASK_def CHECKSUM_BITSIZE_value)

lemma CHECKSUM_MASK_as_mask: "CHECKSUM_MASK = mask 60"
  by (simp add: CHECKSUM_MASK_value mask_eq_exp_minus_1)

text \<open>
  C1. The checksum constants define a 60-bit checksum: from
  \<open>CHECKSUM_HEXDIGITS = 15\<close> the bit size is 60 and the mask is \<open>2^60 - 1\<close>, and
  every integer (negative ones included) reduced by the mask with bitwise AND lies in
  \<open>[0, 2^60)\<close>.
\<close>

theorem checksum_mask_60_bits:
  "CHECKSUM_HEXDIGITS = 15 \<and> CHECKSUM_BITSIZE = 60 \<and> CHECKSUM_MASK = 2 ^ 60 - 1
   \<and> (\<forall>x::int. 0 \<le> x AND CHECKSUM_MASK \<and> x AND CHECKSUM_MASK < 2 ^ 60)"
proof -
  have "\<And>x::int. x AND CHECKSUM_MASK = x mod 2 ^ 60"
    by (simp add: CHECKSUM_MASK_as_mask take_bit_eq_mask [symmetric] take_bit_eq_mod)
  then show ?thesis
    by (simp add: CHECKSUM_HEXDIGITS_def CHECKSUM_BITSIZE_value CHECKSUM_MASK_value)
qed

subsection \<open>Table paths\<close>

lemma normalize_table_path_long:
  "2 < length path \<Longrightarrow> normalize_table_path self path = Inl ValueError"
  by (cases path rule: list.exhaust; cases "tl path")
     (auto simp: normalize_table_path_def split: list.splits)

text \<open>
  C3, as stated, at a connection without a default schema: the path of length 1 comes
  back as it is, a path of one component and not the pair.
\<close>

theorem normalize_table_path_no_default_schema:
  "normalize_table_path plain_database [''ratings''] = Inr [''ratings'']"
  by (simp add: normalize_table_path_def plain_database_def)

text \<open>
  C3, amended. A path of more than 2 components raises \<^verbatim>\<open>ValueError\<close>; a path of
  length 1 is returned as the pair (default schema, table) when the connection has a
  non-empty default schema, and unchanged when the default schema is \<^verbatim>\<open>None\<close> or
  empty; a path of length 2 is returned unchanged.
\<close>

theorem normalize_table_path_cases:
  "(2 < length path \<longrightarrow> normalize_table_path self path = Inl ValueError)
   \<and> (default_schema self = Some schema \<and> schema \<noteq> [] \<longrightarrow>
        normalize_table_path self [table] = Inr [schema, table])
   \<and> (default_schema self = None \<or> default_schema self = Some [] \<longrightarrow>
        normalize_table_path self [table] = Inr [table])
   \<and> normalize_table_path self [schema', table] = Inr [schema', table]"
  using normalize_table_path_long [of path self]
  by (auto simp: normalize_table_path_def)

theorem normalize_table_path_cases_witness:
  "normalize_table_path pg_database [''a'', ''b'', ''c''] = Inl ValueError
   \<and> normalize_table_path pg_database [''ratings''] = Inr [''public'', ''ratings'']
   \<and> normalize_table_path plain_database [''ratings''] = Inr [''ratings'']
   \<and> normalize_table_path pg_database [''s'', ''ratings''] = Inr [''s'', ''ratings'']"
  using normalize_table_path_cases [of "[''a'', ''b'', ''c'']" pg_database "''public''" "''ratings''" "''s''"]
    normalize_table_path_cases [of "[]" plain_database "''x''" "''ratings''" "''s''"]
  by (simp add: pg_database_def plain_database_def)

subsection \<open>Pagination\<close>

text \<open>
  C7, as stated, at a negative offset: the offset is not greater than 0, and
  \<^verbatim>\<open>NotImplementedError\<close> is raised all the same.
\<close>

theorem offset_limit_negative_offset:
  "offset_limit (Some (- 1)) (Some 10) = Inl NotImplementedError"
  by (simp add: offset_limit_def)

text \<open>
  C7, amended. \<^verbatim>\<open>offset_limit\<close> raises \<^verbatim>\<open>NotImplementedError\<close> if and only if an
  offset is provided and is not 0 (negative offsets included); otherwise it returns the
  string \<^verbatim>\<open>LIMIT\<close> followed by the formatted limit.
\<close>

theorem offset_limit_raises_iff:
  "(offset_limit offset limit = Inl NotImplementedError \<longleftrightarrow> (\<exists>i. offset = Some i \<and> i \<noteq> 0))
   \<and> ((\<forall>e. offset_limit offset limit \<noteq> Inl e) \<longleftrightarrow> offset = None \<or> offset = Some 0)
   \<and> (offset = None \<or> offset = Some 0 \<longrightarrow>
        offset_limit offset limit = Inr (''LIMIT '' @ format_opt_int limit))"
  by (cases offset) (auto simp: offset_limit_def)

theorem offset_limit_raises_iff_witness:
  "offset_limit (Some 0) (Some 16) = Inr ''LIMIT 16''
   \<and> offset_limit None (Some 16) = Inr ''LIMIT 16''
   \<and> offset_limit (Some 5) (Some 16) = Inl NotImplementedError"
proof -
  have "format_opt_int (Some 16) = ''16''"
    by code_simp
  moreover have "offset_limit (Some 5) (Some 16) = Inl NotImplementedError"
    using offset_limit_raises_iff [of "Some 5" "Some 16"] by simp
  ultimately show ?thesis
    using offset_limit_raises_iff [of "Some 0" "Some 16"] offset_limit_raises_iff [of None "Some 16"]
    by simp
qed

subsection \<open>Parsing column types\<close>

text \<open>
  C10. When the type name of a column maps to the \<^verbatim>\<open>Decimal\<close> class and
  \<^verbatim>\<open>numeric_scale\<close> is \<^verbatim>\<open>None\<close>, \<^verbatim>\<open>_parse_type\<close> raises \<^verbatim>\<open>ValueError\<close>, whatever the
  other arguments are; no column type is built.
\<close>

theorem parse_type_decimal_without_scale:
  "parse_type_repr self type_repr = Some DecimalClass \<Longrightarrow>
   parse_type self table_path col_name type_repr datetime_precision numeric_precision None
     = Inl ValueError"
  by (simp add: parse_type_def)

theorem parse_type_decimal_without_scale_witness:
  "parse_type_repr pg_database ''numeric'' = Some DecimalClass
   \<and> parse_type pg_database [''public'', ''ratings''] ''price'' ''numeric'' None (Some 10) None
       = Inl ValueError"
proof -
  have h: "parse_type_repr pg_database ''numeric'' = Some DecimalClass"
    by (simp add: parse_type_repr_def pg_database_def)
  show ?thesis
    using h parse_type_decimal_without_scale [OF h, of "[''public'', ''ratings'']" "''price''" None "Some 10"]
    by simp
qed

subsection \<open>Typed query results\<close>


lemma query_int_never_none:
  "(case py_int rt v of Inl e \<Rightarrow> Inl e | Inr i \<Rightarrow> Inr (QInt i)) \<noteq> Inr QNone"
  by (simp split: sum.splits)





subsection \<open>Schema of a missing table\<close>

text \<open>
  C9. For a table path whose schema statement is built and answered with no rows,
  \<^verbatim>\<open>query_table_schema\<close> raises \<^verbatim>\<open>RuntimeError\<close>, which is not one of the error kinds
  the specification declares, and neither \<^verbatim>\<open>QueryError\<close> nor \<^verbatim>\<open>ValueError\<close>.
\<close>

theorem query_table_schema_no_rows:
  assumes "select_table_schema self path = Inr sql_code"
    and "raw_query self (compile self (SqlStr sql_code)) = Inr (Some [])"
  shows "query_table_schema rt self path filter_columns = Inl RuntimeError
         \<and> \<not> declared_error_kind RuntimeError
         \<and> RuntimeError \<noteq> QueryError \<and> RuntimeError \<noteq> ValueError"
  using assms
  by (simp add: query_table_schema_def query_def confirm_def convert_result_def)

theorem query_table_schema_no_rows_witness:
  "(\<exists>sql_code. select_table_schema pg_database [''ratings''] = Inr sql_code
      \<and> raw_query pg_database (compile pg_database (SqlStr sql_code)) = Inr (Some []))
   \<and> query_table_schema plain_runtime pg_database [''ratings''] None = Inl RuntimeError"
proof -
  obtain sql_code where s: "select_table_schema pg_database [''ratings''] = Inr sql_code"
    by (simp add: select_table_schema_def normalize_table_path_def pg_database_def)
  have r: "raw_query pg_database (compile pg_database (SqlStr sql_code)) = Inr (Some [])"
    by (simp add: pg_database_def no_rows_def)
  show ?thesis
    using s r query_table_schema_no_rows [OF s r, of plain_runtime None] by blast
qed

subsection \<open>Initialization errors of a threaded database\<close>

lemma start_worker_module_not_found:
  "thread_conn self w = None \<Longrightarrow>
   start_worker w (Inl (ModuleNotFoundError m)) self = self\<lparr>init_error := Some (ModuleNotFoundError m)\<rparr>"
  by (simp add: start_worker_def)

lemma start_worker_keeps_error:
  assumes "\<exists>m. init_error self = Some (ModuleNotFoundError m)"
  shows "\<exists>m. init_error (start_worker w created self) = Some (ModuleNotFoundError m)"
proof (cases "thread_conn self w")
  case (Some c)
  with assms show ?thesis by (simp add: start_worker_def)
next
  case None
  show ?thesis
  proof (cases created)
    case (Inr c)
    with None assms show ?thesis by (simp add: start_worker_def)
  next
    case (Inl e)
    with None assms show ?thesis by (cases e) (simp_all add: start_worker_def)
  qed
qed

lemma start_workers_keep_error:
  "\<exists>m. init_error self = Some (ModuleNotFoundError m) \<Longrightarrow>
   \<exists>m. init_error (start_workers ws self) = Some (ModuleNotFoundError m)"
proof (induction ws arbitrary: self)
  case Nil
  then show ?case by (simp add: start_workers_def)
next
  case (Cons p ws)
  obtain w created where p: "p = (w, created)" by (cases p)
  have "start_workers (p # ws) self = start_workers ws (start_worker w created self)"
    by (simp add: start_workers_def p)
  with Cons.IH [OF start_worker_keeps_error [OF Cons.prems]] show ?case by simp
qed

lemma query_in_worker_init_error:
  "init_error self = Some e \<Longrightarrow> query_in_worker w sql_code self = (Inl e, self)"
  by (simp add: query_in_worker_def)

text \<open>
  C8, as stated, at an initialization that fails with \<^verbatim>\<open>ConnectError\<close>: nothing is
  stored in \<^verbatim>\<open>_init_error\<close>, and the next query raises \<^verbatim>\<open>BrokenThreadPool\<close> of the
  executor, not the initialization error.
\<close>

theorem connect_error_not_captured:
  "init_error (start_worker 0 (Inl ConnectError) threaded_database_init) = None
   \<and> fst (threaded_query 0 ''SELECT 1'' (start_worker 0 (Inl ConnectError) threaded_database_init))
       = Inl BrokenThreadPool"
  by (simp add: start_worker_def threaded_database_init_def threaded_query_def)

text \<open>
  C8, amended. When the connection initialization of a worker fails with
  \<^verbatim>\<open>ModuleNotFoundError\<close>, the error is stored in \<^verbatim>\<open>_init_error\<close>; from then on every
  query that runs in a worker, on whichever worker, re-raises the stored error and
  executes nothing (the state, with the trace of executed statements, is unchanged), and
  so does \<^verbatim>\<open>_query\<close> while the executor is not broken. After more workers have been
  started, whatever their outcome, a query in a worker still re-raises a stored
  \<^verbatim>\<open>ModuleNotFoundError\<close> and executes nothing.
\<close>

theorem module_not_found_is_sticky:
  assumes "thread_conn self w = None"
  shows "init_error (start_worker w (Inl (ModuleNotFoundError m)) self) = Some (ModuleNotFoundError m)
    \<and> query_in_worker w' sql_code (start_worker w (Inl (ModuleNotFoundError m)) self)
        = (Inl (ModuleNotFoundError m), start_worker w (Inl (ModuleNotFoundError m)) self)
    \<and> (\<not> broken self \<longrightarrow>
         threaded_query w' sql_code (start_worker w (Inl (ModuleNotFoundError m)) self)
           = (Inl (ModuleNotFoundError m), start_worker w (Inl (ModuleNotFoundError m)) self))
    \<and> (\<exists>m'. query_in_worker w' sql_code
                (start_workers ws (start_worker w (Inl (ModuleNotFoundError m)) self))
              = (Inl (ModuleNotFoundError m'),
                 start_workers ws (start_worker w (Inl (ModuleNotFoundError m)) self)))"
proof -
  let ?s = "start_worker w (Inl (ModuleNotFoundError m)) self"
  have e: "init_error ?s = Some (ModuleNotFoundError m)"
    by (simp add: start_worker_module_not_found [OF assms])
  have b: "broken ?s = broken self"
    by (simp add: start_worker_module_not_found [OF assms])
  from e have "\<exists>m'. init_error (start_workers ws ?s) = Some (ModuleNotFoundError m')"
    by (intro start_workers_keep_error) blast
  then obtain m' where "init_error (start_workers ws ?s) = Some (ModuleNotFoundError m')" ..
  then have "query_in_worker w' sql_code (start_workers ws ?s)
               = (Inl (ModuleNotFoundError m'), start_workers ws ?s)"
    by (rule query_in_worker_init_error)
  with e b query_in_worker_init_error [OF e, of w' sql_code] show ?thesis
    by (auto simp: threaded_query_def)
qed

theorem module_not_found_is_sticky_witness:
  "thread_conn threaded_database_init 0 = None
   \<and> fst (threaded_query 1 ''SELECT 1''
             (start_worker 0 (Inl (ModuleNotFoundError ''psycopg2'')) threaded_database_init))
       = Inl (ModuleNotFoundError ''psycopg2'')
   \<and> executed (snd (threaded_query 1 ''SELECT 1''
             (start_worker 0 (Inl (ModuleNotFoundError ''psycopg2'')) threaded_database_init)))
       = []"
proof -
  have h: "thread_conn threaded_database_init 0 = None"
    by (simp add: threaded_database_init_def)
  have b: "\<not> broken threaded_database_init"
    by (simp add: threaded_database_init_def)
  have "executed (start_worker 0 (Inl (ModuleNotFoundError ''psycopg2'')) threaded_database_init) = []"
    by (simp add: start_worker_def threaded_database_init_def)
  then show ?thesis
    using h b module_not_found_is_sticky [OF h, of "''psycopg2''" 1 "''SELECT 1''" "[]"]
    by simp
qed

subsection \<open>Key space partitioner\<close>

lemma round_to_bounds:
  "of_int (round_to md x) \<le> x + 1 / 2 \<and> x - 1 / 2 \<le> of_int (round_to md x)"
proof (cases md)
  case HalfUp
  have "of_int \<lfloor>x + 1 / 2\<rfloor> \<le> x + 1 / 2" "x + 1 / 2 < of_int \<lfloor>x + 1 / 2\<rfloor> + 1"
    by linarith+
  with HalfUp show ?thesis by (simp add: round_to_def)
next
  case HalfEven
  have f: "of_int \<lfloor>x\<rfloor> \<le> x" "x < of_int \<lfloor>x\<rfloor> + 1" by linarith+
  show ?thesis
  proof (cases "x - of_int \<lfloor>x\<rfloor> < 1 / 2")
    case True
    have "round_to md x = \<lfloor>x\<rfloor>" using HalfEven True by (simp add: round_to_def Let_def)
    with True f show ?thesis by simp linarith
  next
    case False
    have "round_to md x = \<lfloor>x\<rfloor> \<and> x - of_int \<lfloor>x\<rfloor> = 1 / 2 \<or> round_to md x = \<lfloor>x\<rfloor> + 1"
      using HalfEven False by (auto simp add: round_to_def Let_def)
    with False f show ?thesis by auto
  qed
qed

lemma round_to_of_int: "round_to md (of_int k) = k"
proof (cases md)
  case HalfUp
  have "\<lfloor>(of_int k :: rat) + 1 / 2\<rfloor> = k"
    by (rule floor_unique) simp_all
  with HalfUp show ?thesis by (simp add: round_to_def)
next
  case HalfEven
  then show ?thesis by (simp add: round_to_def)
qed

lemma split_point_gap:
  assumes n: "1 \<le> n" and d: "n < hi - lo" and ij: "i < j" and j: "int j < n"
  shows "split_point md lo hi n i < split_point md lo hi n j"
proof (rule ccontr)
  assume "\<not> ?thesis"
  let ?d = "hi - lo"
  let ?x = "\<lambda>k::nat. (of_int ((int k + 1) * ?d) / of_int (n + 1) :: rat)"
  from \<open>\<not> ?thesis\<close> have le: "round_to md (?x j) \<le> round_to md (?x i)"
    by (simp add: split_point_def)
  have np: "(0::rat) < of_int (n + 1)" using n by simp
  have "?x j - ?x i = of_int ((int j - int i) * ?d) / of_int (n + 1)"
    by (simp add: diff_divide_distrib [symmetric] algebra_simps)
  have b1: "?x j - 1 / 2 \<le> of_int (round_to md (?x j))" using round_to_bounds by blast
  have b2: "of_int (round_to md (?x i)) \<le> ?x i + 1 / 2" using round_to_bounds by blast
  from le have "(of_int (round_to md (?x j)) :: rat) \<le> of_int (round_to md (?x i))" by simp
  with b1 b2 have "?x j - ?x i \<le> 1" by linarith
  then have "of_int ((int j - int i) * ?d) / (of_int (n + 1) :: rat) \<le> 1"
    by (simp add: diff_divide_distrib [symmetric] algebra_simps)
  then have "(of_int ((int j - int i) * ?d) :: rat) \<le> of_int (n + 1)"
    using np by (simp add: pos_divide_le_eq)
  then have k: "(int j - int i) * ?d \<le> n + 1" by (simp only: of_int_le_iff)
  have "1 \<le> int j - int i" using ij by simp
  then have "?d \<le> (int j - int i) * ?d" using d n by (simp add: mult_le_cancel_right1)
  with k d have dn: "?d = n + 1" and "(int j - int i) * ?d = ?d" by linarith+
  then have ji: "int j = int i + 1" using d n by simp
  have xi: "?x i = of_int (int i + 1)" using dn np by simp
  have xj: "?x j = of_int (int j + 1)" using dn np by simp
  from le show False unfolding xi xj round_to_of_int using ji by simp
qed

lemma split_point_inside:
  assumes n: "1 \<le> n" and d: "n < hi - lo" and i: "int i < n"
  shows "lo < split_point md lo hi n i \<and> split_point md lo hi n i < hi"
proof -
  let ?d = "hi - lo"
  let ?x = "(of_int ((int i + 1) * ?d) / of_int (n + 1) :: rat)"
  have np: "(0::rat) < of_int (n + 1)" using n by simp
  have "n + 1 \<le> (int i + 1) * ?d"
  proof -
    have "n + 1 \<le> 1 * ?d" using d by simp
    also have "\<dots> \<le> (int i + 1) * ?d" using d n by (intro mult_right_mono) simp_all
    finally show ?thesis .
  qed
  then have "(of_int (n + 1) :: rat) \<le> of_int ((int i + 1) * ?d)" by (simp only: of_int_le_iff)
  then have lo1: "1 \<le> ?x" using np by (simp add: pos_le_divide_eq)
  have "(int i + 1) * ?d \<le> (?d - 1) * (n + 1)"
  proof -
    have "(int i + 1) * ?d \<le> n * ?d" using i d n by (intro mult_right_mono) simp_all
    also have "\<dots> \<le> (?d - 1) * (n + 1)" using d by (simp add: algebra_simps)
    finally show ?thesis .
  qed
  then have "(of_int ((int i + 1) * ?d) :: rat) \<le> of_int ((?d - 1) * (n + 1))"
    by (simp only: of_int_le_iff)
  then have hi1: "?x \<le> of_int (?d - 1)" using np by (simp add: pos_divide_le_eq)
  have b1: "?x - 1 / 2 \<le> of_int (round_to md ?x)" using round_to_bounds by blast
  have b2: "of_int (round_to md ?x) \<le> ?x + 1 / 2" using round_to_bounds by blast
  from lo1 b1 have "(0::rat) < of_int (round_to md ?x)" by linarith
  then have p: "0 < round_to md ?x" by simp
  from hi1 b2 have "(of_int (round_to md ?x) :: rat) < of_int ?d" by linarith
  then have q: "round_to md ?x < ?d" by (simp only: of_int_less_iff)
  from p q show ?thesis by (simp add: split_point_def)
qed

lemma split_space_sorted:
  assumes "1 \<le> n" and "n < hi - lo"
  shows "sorted_wrt (<) (split_space md lo hi n)"
  unfolding split_space_def sorted_wrt_map
  by (rule sorted_wrt_mono_rel [of _ "(<)"])
     (use assms in \<open>auto intro!: split_point_gap simp: sorted_wrt_iff_nth_less\<close>)

text \<open>
  C2, as stated, at \<open>lo = 0\<close>, \<open>hi = 1\<close>, \<open>n = 1\<close>: no integer lies strictly between 0
  and 1, and the formula gives the point 0 (half to even) or 1 (halves up).
\<close>

theorem split_space_no_room:
  "\<not> partition_ok 0 1 1 (split_space HalfEven 0 1 1)
   \<and> \<not> partition_ok 0 1 1 (split_space HalfUp 0 1 1)"
  by code_simp

text \<open>
  C2, amended. For all integers \<open>lo\<close>, \<open>hi\<close> and every \<open>n \<ge> 1\<close> with \<open>n < hi - lo\<close>
  (there are at least \<open>n\<close> integers strictly between \<open>lo\<close> and \<open>hi\<close>),
  \<open>split_space lo hi n\<close> is a sequence of exactly \<open>n\<close> integers that are strictly
  increasing and all lie strictly between \<open>lo\<close> and \<open>hi\<close>.
\<close>

theorem split_space_partition:
  assumes "1 \<le> n" and "n < hi - lo"
  shows "int (length (split_space md lo hi n)) = n
         \<and> sorted_wrt (<) (split_space md lo hi n)
         \<and> (\<forall>y \<in> set (split_space md lo hi n). lo < y \<and> y < hi)"
proof -
  have "\<forall>y \<in> set (split_space md lo hi n). lo < y \<and> y < hi"
    using assms by (auto simp: split_space_def split_point_inside)
  with split_space_sorted [OF assms] assms(1) show ?thesis
    by (simp add: split_space_def)
qed

theorem split_space_partition_witness:
  "(1::int) \<le> 3 \<and> (3::int) < 10 - 0
   \<and> split_space HalfEven 0 10 3 = [2, 5, 8]
   \<and> partition_ok 0 10 3 (split_space HalfEven 0 10 3)"
proof -
  have h1: "(1::int) \<le> 3" and h2: "(3::int) < 10 - 0" by simp_all
  have v: "split_space HalfEven 0 10 3 = [2, 5, 8]" by code_simp
  have "partition_ok 0 10 3 (split_space HalfEven 0 10 3)"
    using split_space_partition [OF h1 h2, of HalfEven]
    by (simp add: partition_ok_def strictly_inside_def list_all_iff)
  with h1 h2 v show ?thesis by simp
qed

subsection \<open>Refining text columns to UUID columns\<close>




















end
